theory Spec2Isabelle
  imports Main "HOL-Library.Sublist" "HOL-Library.State_Monad"
begin

section \<open>Data model\<close>

text \<open>
  The entities are the ORM models the design document lists under "Existing Models and
  Fields". Both status enums have the values CREATED, ONBOARDING_STARTED, UNDER_REVIEW,
  DENIED, ACTIVE; they are two distinct Python enums (\<^verbatim>\<open>Organization.Status\<close> and
  \<^verbatim>\<open>Account.Status\<close>), hence two datatypes.
\<close>

datatype Organization_Status =
  Organization_CREATED
  | Organization_ONBOARDING_STARTED
  | Organization_UNDER_REVIEW
  | Organization_DENIED
  | Organization_ACTIVE

datatype Account_Status =
  Account_CREATED
  | Account_ONBOARDING_STARTED
  | Account_UNDER_REVIEW
  | Account_DENIED
  | Account_ACTIVE

datatype IdentityVerificationStatus = unverified | pending | verified | failed

text \<open>Opaque Python objects: a timestamp and a primary key. Every such object is truthy.\<close>

datatype datetime = Datetime int

datatype uuid = UUID nat

text \<open>A JSON value, and the JSONB column \<^verbatim>\<open>details\<close> as a dictionary (key order kept).\<close>

datatype json =
  JNull
  | JBool bool
  | JNumber int
  | JString string
  | JArray "json list"
  | JObject "(string \<times> json) list"

type_synonym jsonb = "(string \<times> json) list"

record Account =
  acct_status :: Account_Status
  is_details_submitted :: bool
  is_charges_enabled :: bool
  is_payouts_enabled :: bool

record Organization =
  status :: Organization_Status
  details :: "jsonb option"
  details_submitted_at :: "datetime option"
  account_id :: "uuid option"
  account :: "Account option"

record User =
  identity_verification_status :: IdentityVerificationStatus

section \<open>Python truthiness\<close>

text \<open>
  \<^verbatim>\<open>not x\<close> on an optional object is true exactly for \<^verbatim>\<open>None\<close>; on a dictionary it is
  also true for the empty dictionary.
\<close>

definition truthy_obj :: "'a option \<Rightarrow> bool" where
  "truthy_obj x = (case x of None \<Rightarrow> False | Some _ \<Rightarrow> True)"

definition truthy_dict :: "jsonb option \<Rightarrow> bool" where
  "truthy_dict d = (case d of None \<Rightarrow> False | Some kv \<Rightarrow> kv \<noteq> [])"

section \<open>Organization completeness check\<close>

text \<open>
  \<^verbatim>\<open>Account.is_payout_ready()\<close> is a method of the surrounding application; its body is
  not part of the fragment, so every function that calls it takes it as the parameter
  \<open>is_payout_ready\<close>.

  \<^verbatim>\<open>is_payment_ready\<close> is a chain of four early returns. The last one dereferences
  \<^verbatim>\<open>self.account\<close>, which the third has shown not to be \<^verbatim>\<open>None\<close>.
\<close>

definition is_payment_ready :: "(Account \<Rightarrow> bool) \<Rightarrow> Organization \<Rightarrow> bool" where
  "is_payment_ready is_payout_ready self =
    (if status self \<noteq> Organization_ACTIVE then False
     else if \<not> truthy_dict (details self) \<or> \<not> truthy_obj (details_submitted_at self) then False
     else if \<not> truthy_obj (account_id self) \<or> \<not> truthy_obj (account self) then False
     else (case account self of
             None \<Rightarrow> False
           | Some a \<Rightarrow> if \<not> is_payout_ready a then False else True))"

text \<open>
  \<^verbatim>\<open>get_missing_steps\<close> appends to the local list \<^verbatim>\<open>missing\<close> in three consecutive
  statements; \<open>missing0\<close> .. \<open>missing3\<close> are the values of that list after each.
  The annotation says \<^verbatim>\<open>user: User\<close>, but the last statement guards with
  \<^verbatim>\<open>if user and ...\<close>, so the argument is optional here and \<open>None\<close> is Python's
  \<^verbatim>\<open>None\<close>.
\<close>

definition get_missing_steps ::
  "(Account \<Rightarrow> bool) \<Rightarrow> Organization \<Rightarrow> User option \<Rightarrow> string list" where
  "get_missing_steps is_payout_ready self user =
    (let missing0 = [];
         missing1 =
           (if \<not> truthy_dict (details self) \<or> \<not> truthy_obj (details_submitted_at self)
            then missing0 @ [''organization_details'']
            else missing0);
         missing2 =
           (if \<not> truthy_obj (account_id self) \<or> \<not> truthy_obj (account self)
            then missing1 @ [''payout_account'']
            else (case account self of
                    None \<Rightarrow> missing1
                  | Some a \<Rightarrow>
                      if \<not> is_payout_ready a
                      then missing1 @ [''payout_account_activation'']
                      else missing1));
         missing3 =
           (case user of
              None \<Rightarrow> missing2
            | Some u \<Rightarrow>
                if identity_verification_status u \<noteq> verified
                then missing2 @ [''identity_verification'']
                else missing2)
     in missing3)"

section \<open>Payment status endpoint\<close>

record OrganizationPaymentStatus =
  payment_ready :: bool
  missing_steps :: "string list"
  organization_status :: Organization_Status
  account_status :: "Account_Status option"
  ps_identity_verification_status :: IdentityVerificationStatus

record AuthSubject =
  subject :: User

text \<open>
  The handler receives the organization the \<^verbatim>\<open>PermittedOrganization\<close> dependency has
  resolved, the authenticated subject and the database session. It returns the response
  together with the three objects it was given: the body contains no assignment to a field
  and no call on the session. The reads and the method calls of the body are made explicit
  steps further down, in the section on the endpoint with explicit effects.
\<close>

definition get_organization_payment_status ::
  "(Account \<Rightarrow> bool) \<Rightarrow> Organization \<Rightarrow> AuthSubject \<Rightarrow> 'session
     \<Rightarrow> OrganizationPaymentStatus \<times> (Organization \<times> AuthSubject \<times> 'session)" where
  "get_organization_payment_status is_payout_ready organization auth_subject session =
    (let missing = get_missing_steps is_payout_ready organization (Some (subject auth_subject))
     in (\<lparr> payment_ready = is_payment_ready is_payout_ready organization,
            missing_steps = missing,
            organization_status = status organization,
            account_status =
              (case account organization of
                 Some a \<Rightarrow> Some (acct_status a)
               | None \<Rightarrow> None),
            ps_identity_verification_status =
              identity_verification_status (subject auth_subject) \<rparr>,
         (organization, auth_subject, session)))"

section \<open>Checkout blocking\<close>

datatype error = CheckoutNotAllowed string

record Product =
  organization :: Organization

text \<open>
  \<^verbatim>\<open>create_checkout\<close> starts with the guard; everything after it ("Rest of the existing
  logic...") is the parameter \<open>rest\<close>, a step on the session that either raises or
  returns a checkout. A raise is \<open>Inl\<close>; the second component is the session as the
  call leaves it.
\<close>

definition create_checkout ::
  "(Account \<Rightarrow> bool)
     \<Rightarrow> ('session \<Rightarrow> Product \<Rightarrow> 'price \<Rightarrow> (error + 'checkout) \<times> 'session)
     \<Rightarrow> 'session \<Rightarrow> Product \<Rightarrow> 'price \<Rightarrow> (error + 'checkout) \<times> 'session" where
  "create_checkout is_payout_ready rest session product price =
    (if \<not> is_payment_ready is_payout_ready (organization product)
     then (Inl (CheckoutNotAllowed ''Organization is not ready to accept payments''), session)
     else rest session product price)"

section \<open>Dashboard banner\<close>

text \<open>
  \<^verbatim>\<open>OrganizationSetupBanner\<close> as implemented: the data it computes before rendering
  (the steps, the counters and the index of the first incomplete step). The markup and the
  progress percentage, a floating-point number used for styling only, are left out.
  \<^verbatim>\<open>null\<close> is \<open>None\<close>.
\<close>

datatype Icon = CubeIcon | LinkIcon | CreditCardIcon

record SetupStep =
  key :: string
  label :: string
  description :: string
  href :: string
  completed :: bool
  icon :: Icon

record OrganizationSchema =
  organization_id :: string
  slug :: string

record BannerView =
  steps :: "SetupStep list"
  completedSteps :: nat
  totalSteps :: nat
  currentStepIndex :: int

text \<open>\<^verbatim>\<open>Array.prototype.includes\<close> and \<^verbatim>\<open>Array.prototype.findIndex\<close>.\<close>

primrec array_includes :: "'a list \<Rightarrow> 'a \<Rightarrow> bool" where
  "array_includes [] v = False"
| "array_includes (x # xs) v = (if x = v then True else array_includes xs v)"

primrec findIndex_from :: "int \<Rightarrow> ('a \<Rightarrow> bool) \<Rightarrow> 'a list \<Rightarrow> int" where
  "findIndex_from i p [] = - 1"
| "findIndex_from i p (x # xs) = (if p x then i else findIndex_from (i + 1) p xs)"

definition findIndex :: "('a \<Rightarrow> bool) \<Rightarrow> 'a list \<Rightarrow> int" where
  "findIndex p xs = findIndex_from 0 p xs"

definition banner_steps ::
  "OrganizationSchema \<Rightarrow> OrganizationPaymentStatus \<Rightarrow> SetupStep list" where
  "banner_steps org paymentStatus =
    [ \<lparr> key = ''create_product'',
        label = ''Create a Product'',
        description = ''Add your first product or service to start selling'',
        href = ''/dashboard/'' @ slug org @ ''/products/new'',
        completed = (\<not> array_includes (missing_steps paymentStatus) ''create_product''),
        icon = CubeIcon \<rparr>,
      \<lparr> key = ''integrate_polar'',
        label = ''Integrate Polar'',
        description = ''Connect Polar to your platform for seamless payments'',
        href = ''/dashboard/'' @ slug org @ ''/finance/account'',
        completed = (\<not> array_includes (missing_steps paymentStatus) ''integrate_polar''),
        icon = LinkIcon \<rparr>,
      \<lparr> key = ''complete_account_setup'',
        label = ''Complete Account Setup'',
        description = ''Finalize your payout details and verification'',
        href = ''/dashboard/'' @ slug org @ ''/finance/account'',
        completed = (\<not> array_includes (missing_steps paymentStatus) ''complete_account_setup''),
        icon = CreditCardIcon \<rparr> ]"

definition OrganizationSetupBanner ::
  "OrganizationSchema \<Rightarrow> bool \<Rightarrow> OrganizationPaymentStatus option \<Rightarrow> BannerView option" where
  "OrganizationSetupBanner org isLoading data =
    (case data of
       None \<Rightarrow> None
     | Some paymentStatus \<Rightarrow>
         if isLoading \<or> payment_ready paymentStatus then None
         else
           (let ss = banner_steps org paymentStatus
            in Some \<lparr> steps = ss,
                      completedSteps = length (filter completed ss),
                      totalSteps = length ss,
                      currentStepIndex = findIndex (\<lambda>step. \<not> completed step) ss \<rparr>))"

section \<open>Checkout component\<close>

text \<open>
  The checkout object is read through \<^verbatim>\<open>(checkout as any).organizationPaymentReady\<close>,
  so the flag is an arbitrary JavaScript value, compared with \<^verbatim>\<open>=== false\<close>.
\<close>

datatype js_value =
  JS_undefined
  | JS_null
  | JS_boolean bool
  | JS_number int
  | JS_string string

record CheckoutPublic =
  organizationPaymentReady :: js_value
  productPrice_amountType :: string

text \<open>
  The rendered tree: one constructor for each component the function returns, with the one
  prop the properties below speak of (\<^verbatim>\<open>disabled\<close> of \<^verbatim>\<open>CheckoutForm\<close>). A child
  expression \<^verbatim>\<open>{c && <X />}\<close> with \<^verbatim>\<open>c\<close> false, and \<^verbatim>\<open>{banner}\<close> with
  \<^verbatim>\<open>banner\<close> null, render nothing.
\<close>

datatype element =
  OrganizationNotReadyBanner
  | CheckoutProductInfo
  | CheckoutProductSwitcher
  | CheckoutPWYWForm
  | CheckoutCard
  | CheckoutForm bool
  | ShadowBox "element list"
  | ShadowBoxOnMd "element list"
  | Div "element list"

definition Checkout :: "bool option \<Rightarrow> CheckoutPublic \<Rightarrow> element" where
  "Checkout embed_prop checkout =
    (let embed = (embed_prop = Some True)
     in if embed then
          ShadowBox
            ((if organizationPaymentReady checkout = JS_boolean False
              then [OrganizationNotReadyBanner] else [])
             @ [CheckoutProductInfo, CheckoutProductSwitcher]
             @ (if productPrice_amountType checkout = ''custom'' then [CheckoutPWYWForm] else [])
             @ [CheckoutForm (organizationPaymentReady checkout = JS_boolean False)])
        else
          (let banner =
                 (if organizationPaymentReady checkout = JS_boolean False
                  then Some OrganizationNotReadyBanner else None)
           in ShadowBoxOnMd
                [ Div
                    ((case banner of None \<Rightarrow> [] | Some b \<Rightarrow> [b])
                     @ [CheckoutProductInfo, CheckoutProductSwitcher]
                     @ (if productPrice_amountType checkout = ''custom''
                        then [CheckoutPWYWForm] else [])
                     @ [CheckoutCard]),
                  Div [CheckoutForm (organizationPaymentReady checkout = JS_boolean False)] ]))"

text \<open>All elements of a rendered tree, in document order.\<close>

fun elements :: "element \<Rightarrow> element list" where
  "elements (ShadowBox cs) = ShadowBox cs # concat (map elements cs)"
| "elements (ShadowBoxOnMd cs) = ShadowBoxOnMd cs # concat (map elements cs)"
| "elements (Div cs) = Div cs # concat (map elements cs)"
| "elements e = [e]"

text \<open>The \<^verbatim>\<open>disabled\<close> props of the checkout forms in a tree.\<close>

fun form_disabled :: "element \<Rightarrow> bool list" where
  "form_disabled (CheckoutForm d) = [d]"
| "form_disabled _ = []"

definition forms_disabled :: "element \<Rightarrow> bool list" where
  "forms_disabled t = concat (map form_disabled (elements t))"

section \<open>Payment status endpoint with explicit effects\<close>

text \<open>
  The endpoint and the two methods it calls once more, now as computations on the objects
  a request can reach: the organization with its account, the authenticated user and the
  database session. A reference to an object is an accessor into that world, every
  attribute access is a read of the world at that point of the run (\<open>attr\<close>), and the
  method \<^verbatim>\<open>Account.is_payout_ready()\<close>, whose body is not part of the fragment, is an
  arbitrary computation on the world: it receives the account and may change anything.
  Statements run in the order of the source; the keyword arguments of the response are
  evaluated from top to bottom, after \<^verbatim>\<open>missing_steps\<close>.
\<close>

record 'session world =
  w_organization :: Organization
  w_subject :: User
  w_session :: 'session

definition attr :: "('w \<Rightarrow> 'a) \<Rightarrow> ('w, 'a) state" where
  "attr f = State (\<lambda>w. (f w, w))"

definition is_payment_ready_st ::
  "(Account \<Rightarrow> ('w, bool) state) \<Rightarrow> ('w \<Rightarrow> Organization) \<Rightarrow> ('w, bool) state" where
  "is_payment_ready_st is_payout_ready self = do {
     st \<leftarrow> attr (\<lambda>w. status (self w));
     if st \<noteq> Organization_ACTIVE then State_Monad.return False
     else do {
       d \<leftarrow> attr (\<lambda>w. details (self w));
       t \<leftarrow> attr (\<lambda>w. details_submitted_at (self w));
       if \<not> truthy_dict d \<or> \<not> truthy_obj t then State_Monad.return False
       else do {
         i \<leftarrow> attr (\<lambda>w. account_id (self w));
         acc \<leftarrow> attr (\<lambda>w. account (self w));
         if \<not> truthy_obj i \<or> \<not> truthy_obj acc then State_Monad.return False
         else do {
           acc' \<leftarrow> attr (\<lambda>w. account (self w));
           case acc' of
             None \<Rightarrow> State_Monad.return False
           | Some a \<Rightarrow> do {
               ready \<leftarrow> is_payout_ready a;
               if \<not> ready then State_Monad.return False else State_Monad.return True
             }
         }
       }
     }
   }"

definition get_missing_steps_st ::
  "(Account \<Rightarrow> ('w, bool) state) \<Rightarrow> ('w \<Rightarrow> Organization) \<Rightarrow> ('w \<Rightarrow> User) option
     \<Rightarrow> ('w, string list) state" where
  "get_missing_steps_st is_payout_ready self user = do {
     let missing0 = [];
     d \<leftarrow> attr (\<lambda>w. details (self w));
     t \<leftarrow> attr (\<lambda>w. details_submitted_at (self w));
     let missing1 =
           (if \<not> truthy_dict d \<or> \<not> truthy_obj t
            then missing0 @ [''organization_details'']
            else missing0);
     i \<leftarrow> attr (\<lambda>w. account_id (self w));
     acc \<leftarrow> attr (\<lambda>w. account (self w));
     missing2 \<leftarrow>
       (if \<not> truthy_obj i \<or> \<not> truthy_obj acc
        then State_Monad.return (missing1 @ [''payout_account''])
        else do {
          acc' \<leftarrow> attr (\<lambda>w. account (self w));
          case acc' of
            None \<Rightarrow> State_Monad.return missing1
          | Some a \<Rightarrow> do {
              ready \<leftarrow> is_payout_ready a;
              if \<not> ready
              then State_Monad.return (missing1 @ [''payout_account_activation''])
              else State_Monad.return missing1
            }
        });
     case user of
       None \<Rightarrow> State_Monad.return missing2
     | Some u \<Rightarrow> do {
         v \<leftarrow> attr (\<lambda>w. identity_verification_status (u w));
         if v \<noteq> verified
         then State_Monad.return (missing2 @ [''identity_verification''])
         else State_Monad.return missing2
       }
   }"

definition get_organization_payment_status_st ::
  "(Account \<Rightarrow> ('session world, bool) state)
     \<Rightarrow> ('session world, OrganizationPaymentStatus) state" where
  "get_organization_payment_status_st is_payout_ready = do {
     missing \<leftarrow> get_missing_steps_st is_payout_ready w_organization (Some w_subject);
     ready \<leftarrow> is_payment_ready_st is_payout_ready w_organization;
     st \<leftarrow> attr (\<lambda>w. status (w_organization w));
     acc \<leftarrow> attr (\<lambda>w. account (w_organization w));
     acc_st \<leftarrow>
       (case acc of
          Some _ \<Rightarrow> attr (\<lambda>w. map_option acct_status (account (w_organization w)))
        | None \<Rightarrow> State_Monad.return None);
     v \<leftarrow> attr (\<lambda>w. identity_verification_status (w_subject w));
     State_Monad.return
       \<lparr> payment_ready = ready,
         missing_steps = missing,
         organization_status = st,
         account_status = acc_st,
         ps_identity_verification_status = v \<rparr>
   }"

section \<open>Example inputs\<close>

text \<open>
  Concrete entities on which the properties below are evaluated. In the examples the
  account method \<^verbatim>\<open>is_payout_ready\<close> is the flag \<open>is_payouts_enabled\<close>.
\<close>

definition example_account_ready :: Account where
  "example_account_ready =
    \<lparr> acct_status = Account_ACTIVE, is_details_submitted = True,
      is_charges_enabled = True, is_payouts_enabled = True \<rparr>"

definition example_org_ready :: Organization where
  "example_org_ready =
    \<lparr> status = Organization_ACTIVE,
      details = Some [(''name'', JString ''Acme'')],
      details_submitted_at = Some (Datetime 1700000000),
      account_id = Some (UUID 1),
      account = Some example_account_ready \<rparr>"

definition example_org_new :: Organization where
  "example_org_new =
    \<lparr> status = Organization_CREATED,
      details = Some [],
      details_submitted_at = None,
      account_id = None,
      account = None \<rparr>"

definition example_user_verified :: User where
  "example_user_verified = \<lparr> identity_verification_status = verified \<rparr>"

definition example_user_pending :: User where
  "example_user_pending = \<lparr> identity_verification_status = pending \<rparr>"

text \<open>A stand-in for the rest of checkout creation: it records the product in the session.\<close>

definition example_rest ::
  "Product list \<Rightarrow> Product \<Rightarrow> unit \<Rightarrow> (error + nat) \<times> Product list" where
  "example_rest session product price = (Inr (length session), session @ [product])"

definition example_org_schema :: OrganizationSchema where
  "example_org_schema = \<lparr> organization_id = ''org_1'', slug = ''acme'' \<rparr>"

definition example_checkout_blocked :: CheckoutPublic where
  "example_checkout_blocked =
    \<lparr> organizationPaymentReady = JS_boolean False, productPrice_amountType = ''fixed'' \<rparr>"

definition example_checkout_legacy :: CheckoutPublic where
  "example_checkout_legacy =
    \<lparr> organizationPaymentReady = JS_undefined, productPrice_amountType = ''custom'' \<rparr>"

text \<open>
  A world for the endpoint, an \<^verbatim>\<open>is_payout_ready\<close> that only reads, and one that
  writes: it answers with the payout flag of the account and then clears that flag.
\<close>

definition example_world :: "unit world" where
  "example_world =
     \<lparr> w_organization = example_org_ready, w_subject = example_user_pending, w_session = () \<rparr>"

definition example_method :: "Account \<Rightarrow> (unit world, bool) state" where
  "example_method a = State_Monad.return (is_payouts_enabled a)"

definition example_writing_method :: "Account \<Rightarrow> (unit world, bool) state" where
  "example_writing_method a =
     State (\<lambda>w. (is_payouts_enabled a,
                 w\<lparr> w_organization :=
                      (w_organization w)\<lparr> account := Some (a\<lparr> is_payouts_enabled := False \<rparr>) \<rparr> \<rparr>))"

section \<open>Auxiliary lemmas\<close>

lemmas examples = example_account_ready_def example_org_ready_def example_org_new_def
  example_user_verified_def example_user_pending_def example_rest_def example_org_schema_def
  example_checkout_blocked_def example_checkout_legacy_def

lemmas truthy = truthy_dict_def truthy_obj_def

text \<open>The three appends of \<^verbatim>\<open>get_missing_steps\<close>, each under the condition that triggers it.\<close>

lemma get_missing_steps_append:
  "get_missing_steps ipr org user =
     (if (\<exists>d. details org = Some d \<and> d \<noteq> []) \<and> details_submitted_at org \<noteq> None
      then [] else [''organization_details''])
     @ (if account_id org = None \<or> account org = None then [''payout_account'']
        else if (\<exists>a. account org = Some a \<and> \<not> ipr a) then [''payout_account_activation'']
        else [])
     @ (if (\<exists>u. user = Some u \<and> identity_verification_status u \<noteq> verified)
        then [''identity_verification''] else [])"
  by (cases "details org"; cases "details_submitted_at org"; cases "account_id org";
      cases "account org"; cases user)
    (simp_all add: get_missing_steps_def truthy)

lemma shape_subseq:
  "subseq ((if A then [] else [''organization_details''])
     @ (if B then [''payout_account''] else if C then [''payout_account_activation''] else [])
     @ (if D then [''identity_verification''] else []))
     [''organization_details'', ''payout_account'', ''payout_account_activation'',
       ''identity_verification'']"
  by (cases A; cases B; cases C; cases D) simp_all

lemma shape_distinct:
  "distinct ((if A then [] else [''organization_details''])
     @ (if B then [''payout_account''] else if C then [''payout_account_activation''] else [])
     @ (if D then [''identity_verification''] else []))"
  by (cases A; cases B; cases C; cases D) simp_all

lemma shape_set:
  "set ((if A then [] else [''organization_details''])
     @ (if B then [''payout_account''] else if C then [''payout_account_activation''] else [])
     @ (if D then [''identity_verification''] else [])) =
   (if A then {} else {''organization_details''})
   \<union> (if B then {''payout_account''} else if C then {''payout_account_activation''} else {})
   \<union> (if D then {''identity_verification''} else {})"
  by (cases A; cases B; cases C; cases D) auto

lemma get_missing_steps_subset:
  "set (get_missing_steps ipr org user) \<subseteq>
     {''organization_details'', ''payout_account'', ''payout_account_activation'',
      ''identity_verification''}"
  unfolding get_missing_steps_append shape_set by auto

lemma get_missing_steps_no_user:
  "''identity_verification'' \<notin> set (get_missing_steps ipr org None)"
  unfolding get_missing_steps_append shape_set by simp

lemma is_payment_readyD:
  "is_payment_ready ipr org \<Longrightarrow>
     (\<exists>d. details org = Some d \<and> d \<noteq> []) \<and> details_submitted_at org \<noteq> None
     \<and> account_id org \<noteq> None \<and> (\<exists>a. account org = Some a \<and> ipr a)"
  by (cases "details org"; cases "details_submitted_at org"; cases "account_id org";
      cases "account org")
    (simp_all add: is_payment_ready_def truthy split: if_splits)

lemma array_includes_set: "array_includes xs v \<longleftrightarrow> v \<in> set xs"
  by (induction xs) auto

lemma banner_keys_not_emitted:
  "''create_product'' \<notin> set (get_missing_steps ipr org user)"
  "''integrate_polar'' \<notin> set (get_missing_steps ipr org user)"
  "''complete_account_setup'' \<notin> set (get_missing_steps ipr org user)"
  using get_missing_steps_subset [of ipr org user] by auto

lemma Checkout_embed:
  "Checkout (Some True) c =
     ShadowBox
       ((if organizationPaymentReady c = JS_boolean False then [OrganizationNotReadyBanner] else [])
        @ [CheckoutProductInfo, CheckoutProductSwitcher]
        @ (if productPrice_amountType c = ''custom'' then [CheckoutPWYWForm] else [])
        @ [CheckoutForm (organizationPaymentReady c = JS_boolean False)])"
  by (simp add: Checkout_def)

lemma Checkout_page:
  "e \<noteq> Some True \<Longrightarrow>
   Checkout e c =
     ShadowBoxOnMd
       [ Div ((if organizationPaymentReady c = JS_boolean False then [OrganizationNotReadyBanner] else [])
              @ [CheckoutProductInfo, CheckoutProductSwitcher]
              @ (if productPrice_amountType c = ''custom'' then [CheckoutPWYWForm] else [])
              @ [CheckoutCard]),
         Div [CheckoutForm (organizationPaymentReady c = JS_boolean False)] ]"
  by (simp add: Checkout_def)

text \<open>
  When \<^verbatim>\<open>is_payout_ready\<close> leaves the world as it is, each of the three computations
  returns what the corresponding function above returns on the objects of the world, and
  leaves the world as it is.
\<close>

lemma run_state_attr: "run_state (attr f) w = (f w, w)"
  by (simp add: attr_def)

lemma is_payment_ready_st_run:
  assumes "\<And>a w. snd (run_state (ipr a) w) = w"
  shows "run_state (is_payment_ready_st ipr self) w =
           (is_payment_ready (\<lambda>a. fst (run_state (ipr a) w)) (self w), w)"
proof (cases "account (self w)")
  case None
  then show ?thesis
    by (simp add: is_payment_ready_st_def is_payment_ready_def run_state_attr truthy_obj_def)
next
  case (Some a)
  obtain r where "run_state (ipr a) w = (r, w)"
    using assms [of a w] by (metis prod.collapse)
  with Some show ?thesis
    by (simp add: is_payment_ready_st_def is_payment_ready_def run_state_attr)
qed

lemma get_missing_steps_st_run:
  assumes "\<And>a w. snd (run_state (ipr a) w) = w"
  shows "run_state (get_missing_steps_st ipr self user) w =
           (get_missing_steps (\<lambda>a. fst (run_state (ipr a) w)) (self w)
              (map_option (\<lambda>u. u w) user), w)"
proof (cases "account (self w)")
  case None
  then show ?thesis
    by (cases user)
      (simp_all add: get_missing_steps_st_def get_missing_steps_def run_state_attr truthy_obj_def
        Let_def)
next
  case (Some a)
  obtain r where "run_state (ipr a) w = (r, w)"
    using assms [of a w] by (metis prod.collapse)
  with Some show ?thesis
    by (cases user)
      (simp_all add: get_missing_steps_st_def get_missing_steps_def run_state_attr Let_def)
qed

lemma get_organization_payment_status_st_run:
  assumes "\<And>a w. snd (run_state (ipr a) w) = w"
  shows "run_state (get_organization_payment_status_st ipr) w =
           (fst (get_organization_payment_status (\<lambda>a. fst (run_state (ipr a) w))
                  (w_organization w) \<lparr> subject = w_subject w \<rparr> (w_session w)), w)"
  by (cases "account (w_organization w)")
    (simp_all add: get_organization_payment_status_st_def get_organization_payment_status_def
      get_missing_steps_st_run [OF assms] is_payment_ready_st_run [OF assms] run_state_attr)

text \<open>
  With a method that writes, the endpoint does change the world, and a second request
  answers differently from the first.
\<close>

lemma writing_method_is_observed:
  "snd (run_state (get_organization_payment_status_st example_writing_method) example_world)
     \<noteq> example_world
   \<and> fst (run_state (get_organization_payment_status_st example_writing_method) example_world)
     = \<lparr> payment_ready = False,
         missing_steps = [''identity_verification''],
         organization_status = Organization_ACTIVE,
         account_status = Some Account_ACTIVE,
         ps_identity_verification_status = pending \<rparr>
   \<and> run_state
        (do {
           r1 \<leftarrow> get_organization_payment_status_st example_writing_method;
           r2 \<leftarrow> get_organization_payment_status_st example_writing_method;
           State_Monad.return (r1 = r2)
         }) example_world
      \<noteq> (True, example_world)"
  by (simp add: get_organization_payment_status_st_def get_missing_steps_st_def
      is_payment_ready_st_def run_state_attr example_writing_method_def example_world_def
      truthy examples Let_def)

section \<open>Properties\<close>

subsection \<open>Readiness flag\<close>

text \<open>
  C1. \<^verbatim>\<open>is_payment_ready(org)\<close> returns true if and only if the status is ACTIVE, the
  details are non-empty, \<^verbatim>\<open>details_submitted_at\<close> is set, the organization has an
  account (both \<^verbatim>\<open>account_id\<close> and the account object) and the account's
  \<^verbatim>\<open>is_payout_ready()\<close> returns true; in every other case it returns false.
\<close>

theorem is_payment_ready_iff:
  "is_payment_ready is_payout_ready org =
     (status org = Organization_ACTIVE
      \<and> (\<exists>d. details org = Some d \<and> d \<noteq> [])
      \<and> (\<exists>t. details_submitted_at org = Some t)
      \<and> (\<exists>i. account_id org = Some i)
      \<and> (\<exists>a. account org = Some a \<and> is_payout_ready a))"
  by (cases "details org"; cases "details_submitted_at org"; cases "account_id org";
      cases "account org")
    (simp_all add: is_payment_ready_def truthy)

theorem is_payment_ready_iff_witness:
  "is_payment_ready is_payouts_enabled example_org_ready
   \<and> \<not> is_payment_ready is_payouts_enabled example_org_new
   \<and> \<not> is_payment_ready is_payouts_enabled
         (example_org_ready\<lparr> status := Organization_UNDER_REVIEW \<rparr>)
   \<and> \<not> is_payment_ready is_payouts_enabled (example_org_ready\<lparr> details := Some [] \<rparr>)
   \<and> \<not> is_payment_ready is_payouts_enabled (example_org_ready\<lparr> account_id := None \<rparr>)
   \<and> \<not> is_payment_ready is_payouts_enabled
         (example_org_ready\<lparr> account :=
            Some (example_account_ready\<lparr> is_payouts_enabled := False \<rparr>) \<rparr>)"
  by (simp add: is_payment_ready_iff examples)

subsection \<open>Checkout guard\<close>

text \<open>
  C2. When the organization of the target product is not payment-ready,
  \<^verbatim>\<open>create_checkout\<close> raises \<^verbatim>\<open>CheckoutNotAllowed\<close> before any of the rest of the
  checkout logic: whatever that logic is, the outcome is the error and the session is as it
  was, so no checkout is created and no later step runs. When the organization is
  payment-ready the guard raises nothing: the outcome is that of the rest of the logic.
\<close>

theorem create_checkout_fails_fast:
  "(\<not> is_payment_ready is_payout_ready (organization product) \<longrightarrow>
      create_checkout is_payout_ready rest session product price =
        (Inl (CheckoutNotAllowed ''Organization is not ready to accept payments''), session))
   \<and> (is_payment_ready is_payout_ready (organization product) \<longrightarrow>
      create_checkout is_payout_ready rest session product price = rest session product price)"
  by (simp add: create_checkout_def)

theorem create_checkout_fails_fast_witness:
  "create_checkout is_payouts_enabled example_rest [] \<lparr> organization = example_org_new \<rparr> ()
     = (Inl (CheckoutNotAllowed ''Organization is not ready to accept payments''), [])
   \<and> create_checkout is_payouts_enabled example_rest [] \<lparr> organization = example_org_ready \<rparr> ()
     = (Inr 0, [\<lparr> organization = example_org_ready \<rparr>])"
  using
    create_checkout_fails_fast
      [of is_payouts_enabled "\<lparr> organization = example_org_new \<rparr>" example_rest "[]" "()"]
    create_checkout_fails_fast
      [of is_payouts_enabled "\<lparr> organization = example_org_ready \<rparr>" example_rest "[]" "()"]
  by (simp add: is_payment_ready_def truthy examples)

subsection \<open>Missing steps\<close>

text \<open>
  C3. \<^verbatim>\<open>get_missing_steps(org, user)\<close> returns its elements in the fixed order
  \<^verbatim>\<open>organization_details\<close>, then one of \<^verbatim>\<open>payout_account\<close> and
  \<^verbatim>\<open>payout_account_activation\<close>, then \<^verbatim>\<open>identity_verification\<close>: the result is a
  subsequence of that list of four, so each element appears at most once and no other
  string appears. \<^verbatim>\<open>payout_account\<close> is in the result exactly when the organization has
  no account (\<^verbatim>\<open>account_id\<close> or the account object is missing),
  \<^verbatim>\<open>payout_account_activation\<close> exactly when it has an account that is not
  payout-ready; hence never both, and neither when it has a payout-ready account.
\<close>

theorem get_missing_steps_fixed_order:
  "subseq (get_missing_steps is_payout_ready org user)
      [''organization_details'', ''payout_account'', ''payout_account_activation'',
       ''identity_verification'']
   \<and> distinct (get_missing_steps is_payout_ready org user)
   \<and> (''payout_account'' \<in> set (get_missing_steps is_payout_ready org user)
        \<longleftrightarrow> account_id org = None \<or> account org = None)
   \<and> (''payout_account_activation'' \<in> set (get_missing_steps is_payout_ready org user)
        \<longleftrightarrow> account_id org \<noteq> None \<and> (\<exists>a. account org = Some a \<and> \<not> is_payout_ready a))
   \<and> \<not> (''payout_account'' \<in> set (get_missing_steps is_payout_ready org user)
          \<and> ''payout_account_activation'' \<in> set (get_missing_steps is_payout_ready org user))
   \<and> (account_id org \<noteq> None \<and> (\<exists>a. account org = Some a \<and> is_payout_ready a) \<longrightarrow>
        ''payout_account'' \<notin> set (get_missing_steps is_payout_ready org user)
        \<and> ''payout_account_activation'' \<notin> set (get_missing_steps is_payout_ready org user))"
proof (intro conjI)
  let ?ms = "get_missing_steps is_payout_ready org user"
  show "subseq ?ms
      [''organization_details'', ''payout_account'', ''payout_account_activation'',
       ''identity_verification'']"
    unfolding get_missing_steps_append by (rule shape_subseq)
  show "distinct ?ms"
    unfolding get_missing_steps_append by (rule shape_distinct)
  show pa: "''payout_account'' \<in> set ?ms \<longleftrightarrow> account_id org = None \<or> account org = None"
    unfolding get_missing_steps_append shape_set by simp
  show paa: "''payout_account_activation'' \<in> set ?ms
        \<longleftrightarrow> account_id org \<noteq> None \<and> (\<exists>a. account org = Some a \<and> \<not> is_payout_ready a)"
    unfolding get_missing_steps_append shape_set by auto
  show "\<not> (''payout_account'' \<in> set ?ms \<and> ''payout_account_activation'' \<in> set ?ms)"
    unfolding pa paa by auto
  show "account_id org \<noteq> None \<and> (\<exists>a. account org = Some a \<and> is_payout_ready a) \<longrightarrow>
        ''payout_account'' \<notin> set ?ms \<and> ''payout_account_activation'' \<notin> set ?ms"
    unfolding pa paa by auto
qed

theorem get_missing_steps_fixed_order_witness:
  "get_missing_steps is_payouts_enabled example_org_new (Some example_user_pending)
     = [''organization_details'', ''payout_account'', ''identity_verification'']
   \<and> subseq (get_missing_steps is_payouts_enabled example_org_new (Some example_user_pending))
      [''organization_details'', ''payout_account'', ''payout_account_activation'',
       ''identity_verification'']
   \<and> ''payout_account''
        \<in> set (get_missing_steps is_payouts_enabled example_org_new (Some example_user_pending))
   \<and> ''payout_account_activation''
        \<notin> set (get_missing_steps is_payouts_enabled example_org_new (Some example_user_pending))
   \<and> ''payout_account''
        \<notin> set (get_missing_steps is_payouts_enabled example_org_ready (Some example_user_pending))
   \<and> ''payout_account_activation''
        \<notin> set (get_missing_steps is_payouts_enabled example_org_ready (Some example_user_pending))"
  using
    get_missing_steps_fixed_order [of is_payouts_enabled example_org_new "Some example_user_pending"]
    get_missing_steps_fixed_order [of is_payouts_enabled example_org_ready "Some example_user_pending"]
  by (simp add: get_missing_steps_def truthy examples)

text \<open>
  C4. For every organization and user, the result of \<^verbatim>\<open>get_missing_steps(org, user)\<close>
  contains \<^verbatim>\<open>identity_verification\<close> if and only if the user's identity verification
  status is not \<^verbatim>\<open>verified\<close>.
\<close>

theorem get_missing_steps_identity_verification:
  "''identity_verification'' \<in> set (get_missing_steps is_payout_ready org (Some u))
     \<longleftrightarrow> identity_verification_status u \<noteq> verified"
  unfolding get_missing_steps_append shape_set by simp

theorem get_missing_steps_identity_verification_witness:
  "''identity_verification''
      \<in> set (get_missing_steps is_payouts_enabled example_org_ready (Some example_user_pending))
   \<and> ''identity_verification''
      \<notin> set (get_missing_steps is_payouts_enabled example_org_ready (Some example_user_verified))"
  by (simp add: get_missing_steps_identity_verification examples)

subsection \<open>Payment status endpoint\<close>

text \<open>
  C5. The response of the payment-status endpoint holds exactly the computed values:
  \<^verbatim>\<open>payment_ready\<close> is \<^verbatim>\<open>is_payment_ready(organization)\<close>, \<^verbatim>\<open>missing_steps\<close> is
  \<^verbatim>\<open>get_missing_steps(organization, user)\<close> for the requesting user,
  \<^verbatim>\<open>organization_status\<close> is the organization's status,
  \<^verbatim>\<open>identity_verification_status\<close> is the requesting user's status, and
  \<^verbatim>\<open>account_status\<close> is the account's status when an account exists and \<^verbatim>\<open>None\<close>
  otherwise.
\<close>

theorem payment_status_response_fields:
  "payment_ready (fst (get_organization_payment_status is_payout_ready org auth session))
     = is_payment_ready is_payout_ready org
   \<and> missing_steps (fst (get_organization_payment_status is_payout_ready org auth session))
     = get_missing_steps is_payout_ready org (Some (subject auth))
   \<and> organization_status (fst (get_organization_payment_status is_payout_ready org auth session))
     = status org
   \<and> ps_identity_verification_status
        (fst (get_organization_payment_status is_payout_ready org auth session))
     = identity_verification_status (subject auth)
   \<and> (\<forall>a. account org = Some a \<longrightarrow>
        account_status (fst (get_organization_payment_status is_payout_ready org auth session))
          = Some (acct_status a))
   \<and> (account org = None \<longrightarrow>
        account_status (fst (get_organization_payment_status is_payout_ready org auth session))
          = None)"
  by (simp add: get_organization_payment_status_def)

theorem payment_status_response_fields_witness:
  "fst (get_organization_payment_status is_payouts_enabled example_org_ready
         \<lparr> subject = example_user_pending \<rparr> ())
     = \<lparr> payment_ready = True,
         missing_steps = [''identity_verification''],
         organization_status = Organization_ACTIVE,
         account_status = Some Account_ACTIVE,
         ps_identity_verification_status = pending \<rparr>
   \<and> account_status
        (fst (get_organization_payment_status is_payouts_enabled example_org_new
               \<lparr> subject = example_user_pending \<rparr> ())) = None"
  using
    payment_status_response_fields
      [of is_payouts_enabled example_org_ready "\<lparr> subject = example_user_pending \<rparr>" "()"]
    payment_status_response_fields
      [of is_payouts_enabled example_org_new "\<lparr> subject = example_user_pending \<rparr>" "()"]
  by (simp add: is_payment_ready_def get_missing_steps_def truthy examples)

text \<open>
  C6. The payment-status endpoint is a pure read. Handling a request leaves the
  organization, its account, the user and the session unchanged, provided the method
  \<^verbatim>\<open>is_payout_ready\<close> of the surrounding application does not write; two identical
  requests, one after the other, return the same response; and that response is the one
  computed from the objects as they are.
\<close>

theorem payment_status_pure_read:
  assumes "\<And>a w. snd (run_state (is_payout_ready a) w) = w"
  shows "snd (run_state (get_organization_payment_status_st is_payout_ready) w) = w
   \<and> run_state
        (do {
           r1 \<leftarrow> get_organization_payment_status_st is_payout_ready;
           r2 \<leftarrow> get_organization_payment_status_st is_payout_ready;
           State_Monad.return (r1 = r2)
         }) w
      = (True, w)
   \<and> fst (run_state (get_organization_payment_status_st is_payout_ready) w)
      = fst (get_organization_payment_status (\<lambda>a. fst (run_state (is_payout_ready a) w))
              (w_organization w) \<lparr> subject = w_subject w \<rparr> (w_session w))"
  by (simp add: get_organization_payment_status_st_run [OF assms])

theorem payment_status_pure_read_witness:
  "snd (run_state (get_organization_payment_status_st example_method) example_world)
     = example_world
   \<and> run_state
        (do {
           r1 \<leftarrow> get_organization_payment_status_st example_method;
           r2 \<leftarrow> get_organization_payment_status_st example_method;
           State_Monad.return (r1 = r2)
         }) example_world
      = (True, example_world)
   \<and> fst (run_state (get_organization_payment_status_st example_method) example_world)
     = \<lparr> payment_ready = True,
         missing_steps = [''identity_verification''],
         organization_status = Organization_ACTIVE,
         account_status = Some Account_ACTIVE,
         ps_identity_verification_status = pending \<rparr>"
proof -
  have reads: "\<And>a w. snd (run_state (example_method a) w) = w"
    by (simp add: example_method_def)
  show ?thesis
    using payment_status_pure_read [of example_method example_world, OF reads]
    by (simp add: get_organization_payment_status_def is_payment_ready_def
        get_missing_steps_def truthy examples example_method_def example_world_def)
qed

subsection \<open>Readiness against missing steps\<close>

text \<open>
  C7. If \<^verbatim>\<open>is_payment_ready(org)\<close> is true then \<^verbatim>\<open>get_missing_steps(org, user)\<close>
  contains none of \<^verbatim>\<open>organization_details\<close>, \<^verbatim>\<open>payout_account\<close> and
  \<^verbatim>\<open>payout_account_activation\<close>: the only step that can still be missing for a
  payment-ready organization is \<^verbatim>\<open>identity_verification\<close>.
\<close>

theorem payment_ready_missing_only_identity:
  "is_payment_ready is_payout_ready org \<Longrightarrow>
     ''organization_details'' \<notin> set (get_missing_steps is_payout_ready org user)
     \<and> ''payout_account'' \<notin> set (get_missing_steps is_payout_ready org user)
     \<and> ''payout_account_activation'' \<notin> set (get_missing_steps is_payout_ready org user)
     \<and> set (get_missing_steps is_payout_ready org user) \<subseteq> {''identity_verification''}"
  using is_payment_readyD [of is_payout_ready org]
  unfolding get_missing_steps_append shape_set by auto

theorem payment_ready_missing_only_identity_witness:
  "is_payment_ready is_payouts_enabled example_org_ready
   \<and> ''organization_details''
        \<notin> set (get_missing_steps is_payouts_enabled example_org_ready (Some example_user_pending))
   \<and> ''payout_account''
        \<notin> set (get_missing_steps is_payouts_enabled example_org_ready (Some example_user_pending))
   \<and> ''payout_account_activation''
        \<notin> set (get_missing_steps is_payouts_enabled example_org_ready (Some example_user_pending))
   \<and> get_missing_steps is_payouts_enabled example_org_ready (Some example_user_pending)
        = [''identity_verification'']"
proof -
  have ready: "is_payment_ready is_payouts_enabled example_org_ready"
    by (simp add: is_payment_ready_def truthy examples)
  have "get_missing_steps is_payouts_enabled example_org_ready (Some example_user_pending)
          = [''identity_verification'']"
    by (simp add: get_missing_steps_def truthy examples)
  with ready payment_ready_missing_only_identity [OF ready, of "Some example_user_pending"]
  show ?thesis by simp
qed

text \<open>
  C8. An empty list of missing steps does not imply payment readiness. As soon as some
  account is payout-ready, there is an organization and a verified user for which
  \<^verbatim>\<open>get_missing_steps\<close> returns the empty list while \<^verbatim>\<open>is_payment_ready\<close> returns
  false: \<^verbatim>\<open>get_missing_steps\<close> never reads the status of the organization, which
  \<^verbatim>\<open>is_payment_ready\<close> requires to be ACTIVE.
\<close>

theorem no_missing_steps_not_payment_ready:
  "is_payout_ready a \<Longrightarrow>
     \<exists>org u. identity_verification_status u = verified
       \<and> status org \<noteq> Organization_ACTIVE
       \<and> get_missing_steps is_payout_ready org (Some u) = []
       \<and> \<not> is_payment_ready is_payout_ready org"
proof (intro exI conjI)
  assume a: "is_payout_ready a"
  let ?org = "\<lparr> status = Organization_CREATED, details = Some [(''name'', JString ''Acme'')],
      details_submitted_at = Some (Datetime 0), account_id = Some (UUID 0), account = Some a \<rparr>"
  show "identity_verification_status example_user_verified = verified"
    by (simp add: example_user_verified_def)
  show "status ?org \<noteq> Organization_ACTIVE"
    by simp
  show "get_missing_steps is_payout_ready ?org (Some example_user_verified) = []"
    using a by (simp add: get_missing_steps_def truthy example_user_verified_def)
  show "\<not> is_payment_ready is_payout_ready ?org"
    by (simp add: is_payment_ready_def)
qed

theorem no_missing_steps_not_payment_ready_witness:
  "\<exists>org u. identity_verification_status u = verified
       \<and> status org \<noteq> Organization_ACTIVE
       \<and> get_missing_steps is_payouts_enabled org (Some u) = []
       \<and> \<not> is_payment_ready is_payouts_enabled org"
  by (rule no_missing_steps_not_payment_ready [of is_payouts_enabled example_account_ready])
    (simp add: examples)

subsection \<open>Dashboard banner\<close>

text \<open>
  C9. The step keys the implemented dashboard banner looks up in \<^verbatim>\<open>missing_steps\<close>
  (\<^verbatim>\<open>create_product\<close>, \<^verbatim>\<open>integrate_polar\<close>, \<^verbatim>\<open>complete_account_setup\<close>) are disjoint
  from every value \<^verbatim>\<open>get_missing_steps\<close> can emit. So for every payment status whose
  \<^verbatim>\<open>missing_steps\<close> come from \<^verbatim>\<open>get_missing_steps\<close>, each of the three steps of the
  banner is completed and the index of the first incomplete step is -1, although the
  banner renders only when \<^verbatim>\<open>payment_ready\<close> is false.
\<close>

theorem banner_steps_all_completed:
  "{''create_product'', ''integrate_polar'', ''complete_account_setup''}
      \<inter> set (get_missing_steps is_payout_ready org user) = {}
   \<and> (missing_steps ps = get_missing_steps is_payout_ready org user \<longrightarrow>
        map key (banner_steps bo ps)
          = [''create_product'', ''integrate_polar'', ''complete_account_setup'']
        \<and> map completed (banner_steps bo ps) = [True, True, True]
        \<and> findIndex (\<lambda>step. \<not> completed step) (banner_steps bo ps) = - 1
        \<and> (\<not> payment_ready ps \<longrightarrow>
             OrganizationSetupBanner bo False (Some ps)
               = Some \<lparr> steps = banner_steps bo ps, completedSteps = 3, totalSteps = 3,
                        currentStepIndex = - 1 \<rparr>))
   \<and> (OrganizationSetupBanner bo loading (Some ps) \<noteq> None \<longrightarrow> \<not> payment_ready ps)"
  by (simp add: banner_keys_not_emitted banner_steps_def array_includes_set
        OrganizationSetupBanner_def findIndex_def)

theorem banner_steps_all_completed_witness:
  "OrganizationSetupBanner example_org_schema False
     (Some (fst (get_organization_payment_status is_payouts_enabled example_org_new
                  \<lparr> subject = example_user_pending \<rparr> ())))
   = Some \<lparr> steps =
        banner_steps example_org_schema
          (fst (get_organization_payment_status is_payouts_enabled example_org_new
                  \<lparr> subject = example_user_pending \<rparr> ())),
        completedSteps = 3, totalSteps = 3, currentStepIndex = - 1 \<rparr>"
  using
    banner_steps_all_completed
      [of is_payouts_enabled example_org_new "Some example_user_pending"
          "fst (get_organization_payment_status is_payouts_enabled example_org_new
                  \<lparr> subject = example_user_pending \<rparr> ())"
          example_org_schema False]
  by (simp add: get_organization_payment_status_def is_payment_ready_def examples)

subsection \<open>Checkout component\<close>

text \<open>
  C10. Whenever the organization-payment-ready flag of the checkout is \<^verbatim>\<open>false\<close>, the
  output of the \<^verbatim>\<open>Checkout\<close> component contains the \<^verbatim>\<open>OrganizationNotReadyBanner\<close> and
  its one checkout form is disabled, in the embedded layout (a \<^verbatim>\<open>ShadowBox\<close>) and in the
  non-embedded one (a \<^verbatim>\<open>ShadowBoxOnMd\<close>); when the flag is anything else, no such banner
  is rendered.
\<close>

theorem checkout_banner_when_not_ready:
  "(organizationPaymentReady c = JS_boolean False \<longrightarrow>
      OrganizationNotReadyBanner \<in> set (elements (Checkout e c))
      \<and> forms_disabled (Checkout e c) = [True])
   \<and> (organizationPaymentReady c \<noteq> JS_boolean False \<longrightarrow>
      OrganizationNotReadyBanner \<notin> set (elements (Checkout e c)))
   \<and> (e = Some True \<longrightarrow> (\<exists>cs. Checkout e c = ShadowBox cs))
   \<and> (e \<noteq> Some True \<longrightarrow> (\<exists>cs. Checkout e c = ShadowBoxOnMd cs))"
proof (cases "e = Some True")
  case True
  then show ?thesis
    by (simp add: Checkout_embed forms_disabled_def)
next
  case False
  then show ?thesis
    by (simp add: Checkout_page forms_disabled_def)
qed

theorem checkout_banner_when_not_ready_witness:
  "OrganizationNotReadyBanner \<in> set (elements (Checkout (Some True) example_checkout_blocked))
   \<and> forms_disabled (Checkout (Some True) example_checkout_blocked) = [True]
   \<and> OrganizationNotReadyBanner \<in> set (elements (Checkout None example_checkout_blocked))
   \<and> forms_disabled (Checkout None example_checkout_blocked) = [True]
   \<and> OrganizationNotReadyBanner \<notin> set (elements (Checkout (Some True) example_checkout_legacy))
   \<and> OrganizationNotReadyBanner \<notin> set (elements (Checkout None example_checkout_legacy))"
  using
    checkout_banner_when_not_ready [of example_checkout_blocked "Some True"]
    checkout_banner_when_not_ready [of example_checkout_blocked None]
    checkout_banner_when_not_ready [of example_checkout_legacy "Some True"]
    checkout_banner_when_not_ready [of example_checkout_legacy None]
  by (simp add: examples)

end
